theory Spec2Isabelle
  imports Main "HOL-Library.Sublist"
begin

section \<open>Scope\<close>

text \<open>
  A model of the request handlers of \<^verbatim>\<open>server.js\<close> and of the schema of \<^verbatim>\<open>models/Goal.js\<close>.
  The file \<^verbatim>\<open>server.js\<close> holds two revisions one after the other; the handlers are those of
  the first (lines 1 to 262). The second differs in the mail setup, in the text of the
  404 answers of the delete and update routes (\<^verbatim>\<open>Goal not found\<close>), and in the request
  to the generator, which has no \<^verbatim>\<open>CRITICAL RULES\<close> there.

  A handler is a function from the state it reads (the Goal collection, the users, the
  table of one-time codes) and the request to the answer and the new state. The
  generator, \<^verbatim>\<open>JSON.parse\<close>, the clock, the identifier generator, the hash function and the
  random code are parameters. Route parameters are identifiers, request bodies hold
  values of the types the handlers expect, and the database answers every call: the
  \<^verbatim>\<open>catch\<close> branches of the list, toggle, delete and update routes are reached only by
  what \<^verbatim>\<open>save\<close> rejects.
\<close>

section \<open>JSON values and the JavaScript operators applied to them\<close>

text \<open>
  The value \<^verbatim>\<open>JSON.parse\<close> returns. Numbers are restricted to integers (the day labels
  and hour counts the handlers deal with); an object is the list of its members.
\<close>

datatype json =
  JNull
  | JBool bool
  | JNum int
  | JStr string
  | JArr "json list"
  | JObj "(string \<times> json) list"

text \<open>JavaScript truthiness: \<^verbatim>\<open>null\<close>, \<^verbatim>\<open>false\<close>, \<^verbatim>\<open>0\<close> and \<^verbatim>\<open>""\<close> are falsy; arrays and objects
  (also empty ones) are truthy.\<close>

fun truthy :: "json \<Rightarrow> bool" where
  "truthy JNull = False"
| "truthy (JBool b) = b"
| "truthy (JNum n) = (n \<noteq> 0)"
| "truthy (JStr s) = (s \<noteq> [])"
| "truthy (JArr xs) = True"
| "truthy (JObj kvs) = True"

datatype error =
  GenerationError | SyntaxError | TypeError | ValidationError | CastError | DuplicateKey

text \<open>
  The property read \<^verbatim>\<open>parsedResponse.k\<close>, for the two keys the handler reads
  (\<^verbatim>\<open>roadmap\<close>, \<^verbatim>\<open>adjustmentMessage\<close>), which no prototype defines: a read on \<^verbatim>\<open>null\<close>
  throws a TypeError, a missing member and a read on a number, string, boolean or array
  give \<^verbatim>\<open>undefined\<close> (\<open>None\<close>).
\<close>

fun get_prop :: "json \<Rightarrow> string \<Rightarrow> error + json option" where
  "get_prop JNull k = Inl TypeError"
| "get_prop (JObj kvs) k = Inr (map_of kvs k)"
| "get_prop v k = Inr None"

text \<open>\<^verbatim>\<open>a || b\<close>: the left operand when it is truthy, the right one otherwise.\<close>

fun or_else :: "json option \<Rightarrow> json \<Rightarrow> json" where
  "or_else None b = b"
| "or_else (Some a) b = (if truthy a then a else b)"

section \<open>Text processing of the generator's answer\<close>

text \<open>
  \<^verbatim>\<open>text.replace(/```json|```/g, '')\<close>: scanning from the left, every match of the
  alternation is removed; at one position the first alternative is tried first.
\<close>

fun strip_fences :: "string \<Rightarrow> string" where
  "strip_fences [] = []"
| "strip_fences (c # cs) =
     (if prefix ''```json'' (c # cs) then strip_fences (drop 6 cs)
      else if prefix ''```'' (c # cs) then strip_fences (drop 2 cs)
      else c # strip_fences cs)"

text \<open>
  \<^verbatim>\<open>String.prototype.trim\<close> removes white space and line terminators at both ends. Of
  the code units below 256 these are tab, line feed, vertical tab, form feed, carriage
  return, space and the no-break space.
\<close>

definition is_space :: "char \<Rightarrow> bool" where
  "is_space c \<longleftrightarrow> c \<in> set [CHR 0x09, CHR 0x0A, CHR 0x0B, CHR 0x0C, CHR 0x0D, CHR 0x20, CHR 0xA0]"

definition trim :: "string \<Rightarrow> string" where
  "trim s = rev (dropWhile is_space (rev (dropWhile is_space s)))"

definition jsonStr :: "string \<Rightarrow> string" where
  "jsonStr text = trim (strip_fences text)"

section \<open>The request sent to the generator\<close>

text \<open>A template literal prints an integer in decimal.\<close>

fun digits :: "nat \<Rightarrow> string" where
  "digits n =
     (if n < 10 then [''0123456789'' ! n]
      else digits (n div 10) @ [''0123456789'' ! (n mod 10)])"

declare digits.simps [simp del]

definition number_text :: "int \<Rightarrow> string" where
  "number_text n = (if n < 0 then CHR ''-'' # digits (nat (- n)) else digits (nat n))"

definition nl :: string where
  "nl = [CHR 0x0A]"

definition dq :: string where
  "dq = [CHR 0x22]"

definition rule3 :: string where
  "rule3 = ''3. HOWEVER, the total duration MUST NOT exceed 365 days. If it requires more than 365 days, condense the plan to fit exactly 365 days and focus on the core essentials.''"

definition prompt :: "string \<Rightarrow> string \<Rightarrow> string \<Rightarrow> string \<Rightarrow> int \<Rightarrow> string" where
  "prompt today req_title req_description req_deadline req_hoursPerDay =
     nl
     @ ''      Today's date is: '' @ today @ ''.'' @ nl
     @ ''      I have a goal: '' @ dq @ req_title @ dq @ ''. Description: '' @ dq @ req_description @ dq @ ''.'' @ nl
     @ ''      I have '' @ number_text req_hoursPerDay @ '' hours per day available. The requested deadline is '' @ req_deadline @ ''.'' @ nl
     @ ''      '' @ nl
     @ ''      Generate a day-by-day roadmap starting from tomorrow.'' @ nl
     @ ''      '' @ nl
     @ ''      CRITICAL RULES:'' @ nl
     @ ''      1. Calculate the duration between today ('' @ today @ '') and the deadline ('' @ req_deadline @ '').'' @ nl
     @ ''      2. If the goal is impossible to achieve by the requested deadline, extend the timeline to a realistic duration.'' @ nl
     @ ''      '' @ rule3 @ nl
     @ ''      4. If you changed the user's requested deadline or duration, provide a friendly explanation in 'adjustmentMessage'. If the deadline was perfect, set 'adjustmentMessage' to null.'' @ nl
     @ ''      '' @ nl
     @ ''      Strictly return ONLY a JSON object in this format (no markdown, no code fences):'' @ nl
     @ ''      {'' @ nl
     @ ''        '' @ dq @ ''adjustmentMessage'' @ dq @ '': '' @ dq @ ''Your friendly explanation here (or null)'' @ dq @ '','' @ nl
     @ ''        '' @ dq @ ''roadmap'' @ dq @ '': ['' @ nl
     @ ''          { '' @ dq @ ''day'' @ dq @ '': 1, '' @ dq @ ''task'' @ dq @ '': '' @ dq @ ''Specific task for day 1'' @ dq @ '' },'' @ nl
     @ ''          { '' @ dq @ ''day'' @ dq @ '': 2, '' @ dq @ ''task'' @ dq @ '': '' @ dq @ ''Specific task for day 2'' @ dq @ '' }'' @ nl
     @ ''        ]'' @ nl
     @ ''      }'' @ nl
     @ ''    ''"

section \<open>Documents\<close>

type_synonym objectId = nat

text \<open>
  The documents of \<^verbatim>\<open>models/Goal.js\<close>, holding values of their schema types. \<open>entry_id\<close>
  and \<open>goal_id\<close> are the \<^verbatim>\<open>_id\<close> fields mongoose adds; dates are milliseconds since the
  epoch; a path without a value, or holding null, is \<open>None\<close>: the Boolean path \<^verbatim>\<open>completed\<close>
  holds true, false or null.
\<close>

record roadmap_entry =
  entry_id :: objectId
  day :: "int option"
  task :: "string option"
  completed :: "bool option"

record goal =
  goal_id :: objectId
  userId :: objectId
  title :: string
  description :: string
  deadline :: "int option"
  hoursPerDay :: int
  adjustmentMessage :: "string option"
  roadmap :: "roadmap_entry list"
  createdAt :: int

text \<open>
  The libraries the handlers call, as parameters: the generator
  (\<open>None\<close>: the call or the read of its text throws), \<^verbatim>\<open>JSON.parse\<close> (\<open>None\<close>: it throws a
  SyntaxError), and mongoose's casts of a value whose JSON type is not the type of the
  schema path (\<open>None\<close>: a CastError, which makes \<^verbatim>\<open>save\<close> reject).
\<close>

record library =
  generateContent :: "string \<Rightarrow> string option"
  JSON_parse :: "string \<Rightarrow> json option"
  castDate :: "string \<Rightarrow> int option option"
  castObjectId :: "json \<Rightarrow> objectId option"
  castNumber :: "json \<Rightarrow> int option option"
  castString :: "json \<Rightarrow> string option option"
  castBoolean :: "json \<Rightarrow> bool option"
  castSubdocument :: "json \<Rightarrow> roadmap_entry option"

datatype payload =
  Error string
  | Message string
  | GoalDoc goal
  | GoalDocs "goal list"

record response =
  status :: nat
  body :: payload

section \<open>Building a Goal document from the schema\<close>

definition cast_day :: "library \<Rightarrow> json option \<Rightarrow> error + int option" where
  "cast_day lib v =
     (case v of
        None \<Rightarrow> Inr None
      | Some JNull \<Rightarrow> Inr None
      | Some (JNum n) \<Rightarrow> Inr (Some n)
      | Some w \<Rightarrow> (case castNumber lib w of None \<Rightarrow> Inl CastError | Some r \<Rightarrow> Inr r))"

definition cast_text :: "library \<Rightarrow> json option \<Rightarrow> error + string option" where
  "cast_text lib v =
     (case v of
        None \<Rightarrow> Inr None
      | Some JNull \<Rightarrow> Inr None
      | Some (JStr s) \<Rightarrow> Inr (Some s)
      | Some w \<Rightarrow> (case castString lib w of None \<Rightarrow> Inl CastError | Some r \<Rightarrow> Inr r))"

text \<open>\<^verbatim>\<open>completed: { type: Boolean, default: false }\<close>: the default fills a missing member
  only; a null that is sent is stored.\<close>

definition cast_completed :: "library \<Rightarrow> json option \<Rightarrow> error + bool option" where
  "cast_completed lib v =
     (case v of
        None \<Rightarrow> Inr (Some False)
      | Some JNull \<Rightarrow> Inr None
      | Some (JBool b) \<Rightarrow> Inr (Some b)
      | Some w \<Rightarrow> (case castBoolean lib w of None \<Rightarrow> Inl CastError | Some b \<Rightarrow> Inr (Some b)))"

definition cast_id :: "library \<Rightarrow> objectId \<Rightarrow> json option \<Rightarrow> error + objectId" where
  "cast_id lib fresh v =
     (case v of
        None \<Rightarrow> Inr fresh
      | Some w \<Rightarrow> (case castObjectId lib w of None \<Rightarrow> Inl CastError | Some i \<Rightarrow> Inr i))"

text \<open>One element of the \<^verbatim>\<open>roadmap\<close> array becomes a subdocument: members that are not
  schema paths are dropped, a missing \<^verbatim>\<open>_id\<close> is generated.\<close>

definition cast_entry :: "library \<Rightarrow> objectId \<Rightarrow> json \<Rightarrow> error + roadmap_entry" where
  "cast_entry lib fresh v =
     (case v of
        JObj kvs \<Rightarrow>
          (case cast_id lib fresh (map_of kvs ''_id'') of Inl e \<Rightarrow> Inl e | Inr i \<Rightarrow>
          (case cast_day lib (map_of kvs ''day'') of Inl e \<Rightarrow> Inl e | Inr d \<Rightarrow>
          (case cast_text lib (map_of kvs ''task'') of Inl e \<Rightarrow> Inl e | Inr t \<Rightarrow>
          (case cast_completed lib (map_of kvs ''completed'') of Inl e \<Rightarrow> Inl e | Inr c \<Rightarrow>
             Inr \<lparr>entry_id = i, day = d, task = t, completed = c\<rparr>))))
      | w \<Rightarrow> (case castSubdocument lib w of None \<Rightarrow> Inl CastError | Some r \<Rightarrow> Inr r))"

fun cast_entries :: "library \<Rightarrow> (nat \<Rightarrow> objectId) \<Rightarrow> nat \<Rightarrow> json list \<Rightarrow> error + roadmap_entry list" where
  "cast_entries lib oid i [] = Inr []"
| "cast_entries lib oid i (v # vs) =
     (case cast_entry lib (oid i) v of Inl e \<Rightarrow> Inl e | Inr x \<Rightarrow>
     (case cast_entries lib oid (Suc i) vs of Inl e \<Rightarrow> Inl e | Inr xs \<Rightarrow> Inr (x # xs)))"

text \<open>A value that is not an array is cast as the array holding it.\<close>

definition cast_roadmap :: "library \<Rightarrow> (nat \<Rightarrow> objectId) \<Rightarrow> json \<Rightarrow> error + roadmap_entry list" where
  "cast_roadmap lib oid v =
     (case v of JArr vs \<Rightarrow> cast_entries lib oid 1 vs | w \<Rightarrow> cast_entries lib oid 1 [w])"

text \<open>\<^verbatim>\<open>title: { type: String, required: true }\<close>: the validation \<^verbatim>\<open>save\<close> runs rejects
  an empty title.\<close>

definition validate :: "goal \<Rightarrow> bool" where
  "validate g \<longleftrightarrow> title g \<noteq> []"

text \<open>
  \<^verbatim>\<open>new Goal({...})\<close>: \<open>oid 0\<close> is the identifier generated for the document, \<open>oid (Suc i)\<close>
  the one for the \<open>i\<close>-th roadmap element, \<open>now\<close> the clock read by the \<^verbatim>\<open>createdAt\<close> default.
\<close>

definition new_Goal ::
  "library \<Rightarrow> int \<Rightarrow> (nat \<Rightarrow> objectId) \<Rightarrow> objectId \<Rightarrow> string \<Rightarrow> string \<Rightarrow> string \<Rightarrow> int \<Rightarrow> json \<Rightarrow> json
     \<Rightarrow> error + goal" where
  "new_Goal lib now oid uid req_title req_description req_deadline req_hoursPerDay adj rm =
     (case castDate lib req_deadline of None \<Rightarrow> Inl CastError | Some d \<Rightarrow>
     (case cast_text lib (Some adj) of Inl e \<Rightarrow> Inl e | Inr a \<Rightarrow>
     (case cast_roadmap lib oid rm of Inl e \<Rightarrow> Inl e | Inr r \<Rightarrow>
        Inr \<lparr>goal_id = oid 0, userId = uid, title = req_title, description = req_description,
             deadline = d, hoursPerDay = req_hoursPerDay, adjustmentMessage = a, roadmap = r,
             createdAt = now\<rparr>)))"

section \<open>The Goal collection\<close>

fun update_first :: "('a \<Rightarrow> bool) \<Rightarrow> ('a \<Rightarrow> 'a) \<Rightarrow> 'a list \<Rightarrow> 'a list" where
  "update_first P f [] = []"
| "update_first P f (x # xs) = (if P x then f x # xs else x # update_first P f xs)"

fun delete_first :: "('a \<Rightarrow> bool) \<Rightarrow> 'a list \<Rightarrow> 'a list" where
  "delete_first P [] = []"
| "delete_first P (x # xs) = (if P x then xs else x # delete_first P xs)"

text \<open>\<^verbatim>\<open>goal.save()\<close> of a new document: validation, then the insert, which the unique index
  on \<^verbatim>\<open>_id\<close> rejects when the identifier is taken.\<close>

definition save_new :: "goal \<Rightarrow> goal list \<Rightarrow> error + goal list" where
  "save_new g db =
     (if \<not> validate g then Inl ValidationError
      else if goal_id g \<in> set (map goal_id db) then Inl DuplicateKey
      else Inr (db @ [g]))"

text \<open>\<^verbatim>\<open>goal.save()\<close> of a loaded document: validation, then the update of the document
  with its \<^verbatim>\<open>_id\<close>.\<close>

definition save_loaded :: "goal \<Rightarrow> goal list \<Rightarrow> error + goal list" where
  "save_loaded g db =
     (if \<not> validate g then Inl ValidationError
      else Inr (update_first (\<lambda>x. goal_id x = goal_id g) (\<lambda>x. g) db))"

definition store_ok :: "goal list \<Rightarrow> bool" where
  "store_ok db \<longleftrightarrow> distinct (map goal_id db)"

section \<open>Handlers of the Goal routes\<close>

text \<open>Lines 162 to 170 of \<^verbatim>\<open>POST /api/goals\<close>: the generator's answer, parsed and normalised
  to the pair (\<^verbatim>\<open>adjustmentMessage\<close>, \<^verbatim>\<open>roadmap\<close>).\<close>

definition generate :: "library \<Rightarrow> string \<Rightarrow> error + (json \<times> json)" where
  "generate lib p =
     (case generateContent lib p of None \<Rightarrow> Inl GenerationError | Some text \<Rightarrow>
     (case JSON_parse lib (jsonStr text) of None \<Rightarrow> Inl SyntaxError | Some parsedResponse \<Rightarrow>
     (case get_prop parsedResponse ''roadmap'' of Inl e \<Rightarrow> Inl e | Inr r \<Rightarrow>
     (case get_prop parsedResponse ''adjustmentMessage'' of Inl e \<Rightarrow> Inl e | Inr a \<Rightarrow>
        Inr (or_else a JNull, or_else r (JArr []))))))"

definition ai_failed :: response where
  "ai_failed = \<lparr>status = 500, body = Error ''AI generation failed''\<rparr>"

definition ok :: "payload \<Rightarrow> response" where
  "ok p = \<lparr>status = 200, body = p\<rparr>"

text \<open>\<^verbatim>\<open>POST /api/goals\<close>. \<open>uid\<close> is \<^verbatim>\<open>req.user._id\<close>, the identity the token carries; every
  exception inside the \<^verbatim>\<open>try\<close> ends in the one \<^verbatim>\<open>catch\<close>.\<close>

definition create_goal ::
  "library \<Rightarrow> string \<Rightarrow> int \<Rightarrow> (nat \<Rightarrow> objectId) \<Rightarrow> goal list \<Rightarrow> objectId
     \<Rightarrow> string \<Rightarrow> string \<Rightarrow> string \<Rightarrow> int \<Rightarrow> response \<times> goal list" where
  "create_goal lib today now oid db uid req_title req_description req_deadline req_hoursPerDay =
     (case generate lib (prompt today req_title req_description req_deadline req_hoursPerDay) of
        Inl e \<Rightarrow> (ai_failed, db)
      | Inr (adj, rm) \<Rightarrow>
     (case new_Goal lib now oid uid req_title req_description req_deadline req_hoursPerDay adj rm of
        Inl e \<Rightarrow> (ai_failed, db)
      | Inr g \<Rightarrow>
     (case save_new g db of
        Inl e \<Rightarrow> (ai_failed, db)
      | Inr db' \<Rightarrow> (ok (GoalDoc g), db'))))"

text \<open>\<^verbatim>\<open>GET /api/goals\<close>.\<close>

definition list_goals :: "goal list \<Rightarrow> objectId \<Rightarrow> response \<times> goal list" where
  "list_goals db uid = (ok (GoalDocs (filter (\<lambda>g. userId g = uid) db)), db)"

text \<open>\<^verbatim>\<open>PUT /api/goals/:goalId/task/:taskId\<close>. The handler runs behind the token check and
  never reads \<^verbatim>\<open>req.user\<close>: \<open>uid\<close> is unused.\<close>

text \<open>\<^verbatim>\<open>!v\<close> on the value of a Boolean path: null is falsy.\<close>

definition js_not :: "bool option \<Rightarrow> bool" where
  "js_not v = (case v of None \<Rightarrow> True | Some b \<Rightarrow> \<not> b)"

text \<open>\<^verbatim>\<open>task.completed = !task.completed\<close>.\<close>

definition toggle :: "roadmap_entry \<Rightarrow> roadmap_entry" where
  "toggle t = t\<lparr>completed := Some (js_not (completed t))\<rparr>"

definition toggle_task :: "goal list \<Rightarrow> objectId \<Rightarrow> objectId \<Rightarrow> objectId \<Rightarrow> response \<times> goal list" where
  "toggle_task db uid goalId taskId =
     (case find (\<lambda>g. goal_id g = goalId) db of
        None \<Rightarrow> (\<lparr>status = 404, body = Error ''Goal not found''\<rparr>, db)
      | Some g \<Rightarrow>
     (case find (\<lambda>t. entry_id t = taskId) (roadmap g) of
        None \<Rightarrow> (\<lparr>status = 404, body = Error ''Task not found''\<rparr>, db)
      | Some t \<Rightarrow>
          (let g' = g\<lparr>roadmap := update_first (\<lambda>t. entry_id t = taskId) toggle (roadmap g)\<rparr>
           in case save_loaded g' db of
                Inl e \<Rightarrow> (\<lparr>status = 500, body = Error ''Failed to update task''\<rparr>, db)
              | Inr db' \<Rightarrow> (ok (GoalDoc g'), db'))))"

text \<open>\<^verbatim>\<open>DELETE /api/goals/:id\<close>.\<close>

definition delete_goal :: "goal list \<Rightarrow> objectId \<Rightarrow> objectId \<Rightarrow> response \<times> goal list" where
  "delete_goal db uid goalId =
     (case find (\<lambda>g. goal_id g = goalId \<and> userId g = uid) db of
        None \<Rightarrow> (\<lparr>status = 404, body = Error ''Goal not found or unauthorized''\<rparr>, db)
      | Some deletedGoal \<Rightarrow>
          (ok (Message ''Goal deleted successfully''),
           delete_first (\<lambda>g. goal_id g = goalId \<and> userId g = uid) db))"

text \<open>
  \<^verbatim>\<open>PUT /api/goals/:id\<close>. The body is the list of its members that are schema paths, each
  with a value the path can hold (\<^verbatim>\<open>_id\<close> apart, which the database refuses to change);
  \<^verbatim>\<open>$set\<close> writes them one by one. The update runs no validation.
\<close>

datatype field_update =
  SetUserId objectId
  | SetTitle string
  | SetDescription string
  | SetDeadline "int option"
  | SetHoursPerDay int
  | SetAdjustmentMessage "string option"
  | SetRoadmap "roadmap_entry list"
  | SetCreatedAt int

fun apply_set :: "field_update \<Rightarrow> goal \<Rightarrow> goal" where
  "apply_set (SetUserId v) g = g\<lparr>userId := v\<rparr>"
| "apply_set (SetTitle v) g = g\<lparr>title := v\<rparr>"
| "apply_set (SetDescription v) g = g\<lparr>description := v\<rparr>"
| "apply_set (SetDeadline v) g = g\<lparr>deadline := v\<rparr>"
| "apply_set (SetHoursPerDay v) g = g\<lparr>hoursPerDay := v\<rparr>"
| "apply_set (SetAdjustmentMessage v) g = g\<lparr>adjustmentMessage := v\<rparr>"
| "apply_set (SetRoadmap v) g = g\<lparr>roadmap := v\<rparr>"
| "apply_set (SetCreatedAt v) g = g\<lparr>createdAt := v\<rparr>"

definition replace_fields ::
  "goal list \<Rightarrow> objectId \<Rightarrow> objectId \<Rightarrow> field_update list \<Rightarrow> response \<times> goal list" where
  "replace_fields db uid goalId updates =
     (case find (\<lambda>g. goal_id g = goalId \<and> userId g = uid) db of
        None \<Rightarrow> (\<lparr>status = 404, body = Error ''Goal not found or unauthorized''\<rparr>, db)
      | Some g \<Rightarrow>
          (let updatedGoal = fold apply_set updates g
           in (ok (GoalDoc updatedGoal),
               update_first (\<lambda>g. goal_id g = goalId \<and> userId g = uid) (\<lambda>g. updatedGoal) db)))"

section \<open>Handlers of the password reset\<close>

text \<open>
  Modelled from the spec: the User document of \<^verbatim>\<open>models/User.js\<close>, which is not part of
  the sources read here; its paths are those the register handler writes
  (\<^verbatim>\<open>new User({ name, email, password: hashedPassword })\<close>).
\<close>

record user =
  user_name :: string
  email :: string
  password :: string

text \<open>An entry of the process-wide \<^verbatim>\<open>otpStore\<close> object, keyed by email.\<close>

record otp_data =
  otp :: string
  expires :: int

type_synonym otp_store = "string \<rightharpoonup> otp_data"

text \<open>
  \<^verbatim>\<open>POST /api/forgot-password\<close>. \<open>now\<close> is \<^verbatim>\<open>Date.now()\<close>, \<open>new_otp\<close> the six digits drawn
  from \<^verbatim>\<open>Math.random\<close>, \<open>mail_sent\<close> whether \<^verbatim>\<open>sendMail\<close> resolved. The code is stored before
  the mail is sent.
\<close>

definition forgot_password ::
  "int \<Rightarrow> string \<Rightarrow> bool \<Rightarrow> user list \<Rightarrow> otp_store \<Rightarrow> string \<Rightarrow> response \<times> otp_store" where
  "forgot_password now new_otp mail_sent users otpStore req_email =
     (case find (\<lambda>u. email u = req_email) users of
        None \<Rightarrow> (\<lparr>status = 404, body = Error ''User not found''\<rparr>, otpStore)
      | Some u \<Rightarrow>
          (if mail_sent then ok (Message ''OTP sent to your email'')
           else \<lparr>status = 500, body = Error ''Failed to send OTP''\<rparr>,
           otpStore(req_email \<mapsto> \<lparr>otp = new_otp, expires = now + 10 * 60 * 1000\<rparr>)))"

text \<open>
  \<^verbatim>\<open>POST /api/reset-password\<close>. \<open>hash\<close> is \<^verbatim>\<open>bcrypt.hash(_, 10)\<close> as it runs in this call.
  The email is taken not to be the name of a property every object inherits.
\<close>

definition reset_password ::
  "(string \<Rightarrow> string) \<Rightarrow> int \<Rightarrow> user list \<Rightarrow> otp_store \<Rightarrow> string \<Rightarrow> string \<Rightarrow> string
     \<Rightarrow> response \<times> user list \<times> otp_store" where
  "reset_password hash now users otpStore req_email req_otp newPassword =
     (case otpStore req_email of
        None \<Rightarrow> (\<lparr>status = 400, body = Error ''Invalid or expired OTP request''\<rparr>, users, otpStore)
      | Some storedOtpData \<Rightarrow>
          (if expires storedOtpData < now
           then (\<lparr>status = 400, body = Error ''OTP has expired''\<rparr>, users, otpStore(req_email := None))
           else if otp storedOtpData \<noteq> req_otp
           then (\<lparr>status = 400, body = Error ''Invalid OTP''\<rparr>, users, otpStore)
           else (ok (Message ''Password reset successfully''),
                 update_first (\<lambda>u. email u = req_email) (\<lambda>u. u\<lparr>password := hash newPassword\<rparr>) users,
                 otpStore(req_email := None))))"

section \<open>The shape the generator is asked for\<close>

text \<open>
  The structured object of the specification: a member \<^verbatim>\<open>roadmap\<close> that is a sequence of
  objects with an integer \<^verbatim>\<open>day\<close> and a string \<^verbatim>\<open>task\<close> (and without the members \<^verbatim>\<open>_id\<close> and
  \<^verbatim>\<open>completed\<close>, which the shape \<^verbatim>\<open>{day, task}\<close> does not have), and a member
  \<^verbatim>\<open>adjustmentMessage\<close> that is a string, null or missing.
\<close>

fun expected_entry :: "json \<Rightarrow> bool" where
  "expected_entry (JObj kvs) =
     ((case map_of kvs ''day'' of Some (JNum d) \<Rightarrow> True | _ \<Rightarrow> False)
      \<and> (case map_of kvs ''task'' of Some (JStr t) \<Rightarrow> True | _ \<Rightarrow> False)
      \<and> map_of kvs ''_id'' = None \<and> map_of kvs ''completed'' = None)"
| "expected_entry v = False"

definition expected_message :: "json option \<Rightarrow> bool" where
  "expected_message a =
     (case a of None \<Rightarrow> True | Some JNull \<Rightarrow> True | Some (JStr s) \<Rightarrow> True | Some w \<Rightarrow> False)"

text \<open>\<open>well_formed v xs\<close>: \<open>v\<close> has the expected shape and \<open>xs\<close> is its roadmap sequence.\<close>

fun well_formed :: "json \<Rightarrow> json list \<Rightarrow> bool" where
  "well_formed (JObj kvs) xs =
     (map_of kvs ''roadmap'' = Some (JArr xs) \<and> list_all expected_entry xs
      \<and> expected_message (map_of kvs ''adjustmentMessage''))"
| "well_formed v xs = False"

section \<open>Observations on the store\<close>

text \<open>The \<^verbatim>\<open>completed\<close> value of the entry a toggle request addresses, if there is one
  (\<open>Some None\<close>: the entry holds null).\<close>

definition entry_completed :: "goal list \<Rightarrow> objectId \<Rightarrow> objectId \<Rightarrow> bool option option" where
  "entry_completed db goalId taskId =
     (case find (\<lambda>g. goal_id g = goalId) db of
        None \<Rightarrow> None
      | Some g \<Rightarrow> map_option completed (find (\<lambda>t. entry_id t = taskId) (roadmap g)))"

text \<open>Identifier, title and description of every stored Goal, in store order.\<close>

definition headings :: "goal list \<Rightarrow> (objectId \<times> string \<times> string) list" where
  "headings db = map (\<lambda>g. (goal_id g, title g, description g)) db"

fun sets_heading :: "field_update \<Rightarrow> bool" where
  "sets_heading (SetTitle v) = True"
| "sets_heading (SetDescription v) = True"
| "sets_heading u = False"

section \<open>Sample inputs\<close>

text \<open>
  A generator answer with \<open>n\<close> days, as JSON text and as the value \<^verbatim>\<open>JSON.parse\<close> gives for
  it, and the same text inside a fenced block.
\<close>

definition day_src :: "nat \<Rightarrow> string" where
  "day_src i = ''{'' @ dq @ ''day'' @ dq @ '':'' @ digits i @ '','' @ dq @ ''task'' @ dq @ '':''
     @ dq @ ''step'' @ dq @ ''}''"

definition days_src :: "nat \<Rightarrow> string" where
  "days_src n = ''{'' @ dq @ ''roadmap'' @ dq @ '':[''
     @ concat (map (\<lambda>i. day_src i @ (if i < n then '','' else [])) [1..<Suc n]) @ '']}''"

definition day_value :: "nat \<Rightarrow> json" where
  "day_value i = JObj [(''day'', JNum (int i)), (''task'', JStr ''step'')]"

definition days_value :: "nat \<Rightarrow> json" where
  "days_value n = JObj [(''roadmap'', JArr (map day_value [1..<Suc n]))]"

definition fenced :: "string \<Rightarrow> string" where
  "fenced t = ''```json'' @ nl @ t @ nl @ ''```''"

text \<open>An answer whose \<^verbatim>\<open>adjustmentMessage\<close> is the empty string, and the empty object.\<close>

definition blank_message_src :: string where
  "blank_message_src = ''{'' @ dq @ ''adjustmentMessage'' @ dq @ '':'' @ dq @ dq @ '',''
     @ dq @ ''roadmap'' @ dq @ '':[]}''"

definition blank_message_value :: json where
  "blank_message_value = JObj [(''adjustmentMessage'', JStr []), (''roadmap'', JArr [])]"

text \<open>
  Libraries to run the handlers with: the generator gives \<open>answer\<close>, the parser reads the
  one text \<open>src\<close> as \<open>v\<close> and throws on any other, two date texts are known, and every cast
  of an ill-typed value is a CastError.
\<close>

definition sample_library :: "string option \<Rightarrow> string \<Rightarrow> json \<Rightarrow> library" where
  "sample_library answer src v =
     \<lparr>generateContent = (\<lambda>p. answer),
      JSON_parse = (\<lambda>s. if s = src then Some v else None),
      castDate = (\<lambda>s. if s = ''2030-01-01'' then Some (Some 1893456000000)
                      else if s = ''2036-11-02'' then Some (Some 2109196800000) else None),
      castObjectId = (\<lambda>w. None),
      castNumber = (\<lambda>w. None),
      castString = (\<lambda>w. None),
      castBoolean = (\<lambda>w. None),
      castSubdocument = (\<lambda>w. None)\<rparr>"

text \<open>The identifiers generated during one request.\<close>

definition sample_oid :: "nat \<Rightarrow> objectId" where
  "sample_oid i = 500 + i"

definition sample_goal :: goal where
  "sample_goal =
     \<lparr>goal_id = 10, userId = 1, title = ''Learn guitar'', description = ''Chords first'',
      deadline = Some 1893456000000, hoursPerDay = 1, adjustmentMessage = None,
      roadmap = [\<lparr>entry_id = 100, day = Some 1, task = Some ''Tune the guitar'', completed = Some False\<rparr>,
                 \<lparr>entry_id = 101, day = Some 2, task = Some ''Learn E minor'', completed = Some True\<rparr>],
      createdAt = 1793577600000\<rparr>"

definition sample_user :: user where
  "sample_user = \<lparr>user_name = ''Ada'', email = ''ada@example.org'', password = ''$2a$10$old''\<rparr>"

section \<open>Facts about the text processing\<close>







lemma strip_fences_append_plain:
  "CHR 0x60 \<notin> set u \<Longrightarrow> strip_fences (u @ w) = u @ strip_fences w"
  by (induction u) auto

lemma dropWhile_plain: "s \<noteq> [] \<Longrightarrow> \<not> P (hd s) \<Longrightarrow> dropWhile P s = s"
  by (cases s) simp_all

lemma trim_nl:
  assumes "s \<noteq> []" "\<not> is_space (hd s)" "\<not> is_space (last s)"
  shows "trim (nl @ s @ nl) = s"
proof -
  have sp: "is_space (CHR 0x0A)" by (simp add: is_space_def)
  from assms(1,2) have a: "dropWhile is_space (nl @ s @ nl) = s @ nl"
    using sp by (cases s) (simp_all add: nl_def)
  from assms(1,3) have "dropWhile is_space (rev s) = rev s"
    by (intro dropWhile_plain) (simp_all add: hd_rev)
  then have "dropWhile is_space (rev (s @ nl)) = rev s"
    using sp by (simp add: nl_def)
  with a show ?thesis by (simp add: trim_def)
qed

text \<open>A fenced block around text without backticks is reduced to that text.\<close>

lemma jsonStr_fenced:
  assumes "CHR 0x60 \<notin> set t" "t \<noteq> []" "\<not> is_space (hd t)" "\<not> is_space (last t)"
  shows "jsonStr (fenced t) = t"
proof -
  have "strip_fences (fenced t) = strip_fences ((nl @ t @ nl) @ ''```'')"
    by (simp add: fenced_def)
  also have "\<dots> = (nl @ t @ nl) @ strip_fences ''```''"
    using assms(1) by (intro strip_fences_append_plain) (simp add: nl_def)
  also have "\<dots> = nl @ t @ nl" by simp
  finally show ?thesis using trim_nl [OF assms(2-4)] by (simp add: jsonStr_def)
qed

lemma digits_plain: "CHR 0x60 \<notin> set (digits n)"
proof (induction n rule: digits.induct)
  case (1 n)
  have d: "\<And>k. k < 10 \<Longrightarrow> ''0123456789'' ! k \<noteq> CHR 0x60"
  proof -
    fix k :: nat
    assume "k < 10"
    then have "''0123456789'' ! k \<in> set ''0123456789''" by (intro nth_mem) simp
    then show "''0123456789'' ! k \<noteq> CHR 0x60" by auto
  qed
  show ?case
  proof (cases "n < 10")
    case True
    then show ?thesis using d [of n] by (subst digits.simps) simp
  next
    case False
    with 1 have "CHR 0x60 \<notin> set (digits (n div 10))" by simp
    moreover have "''0123456789'' ! (n mod 10) \<noteq> CHR 0x60" by (intro d) simp
    ultimately show ?thesis using False by (subst digits.simps) simp
  qed
qed

lemma days_src_plain: "CHR 0x60 \<notin> set (days_src n)"
  using digits_plain by (auto simp: days_src_def day_src_def dq_def)

lemma jsonStr_days: "jsonStr (fenced (days_src n)) = days_src n"
  by (intro jsonStr_fenced days_src_plain) (simp_all add: days_src_def is_space_def)

lemma jsonStr_blank: "jsonStr (fenced blank_message_src) = blank_message_src"
  by (simp add: jsonStr_def fenced_def blank_message_src_def trim_def nl_def dq_def is_space_def)


lemma expected_days: "well_formed (days_value n) (map day_value [1..<Suc n])"
  by (simp add: days_value_def day_value_def list_all_iff expected_message_def)

lemma sublist_skip:
  assumes "sublist xs zs"
  shows "sublist xs (ys @ zs)"
proof -
  from assms obtain ps ss where "zs = ps @ xs @ ss" by (auto simp: sublist_def)
  then have "ys @ zs = (ys @ ps) @ xs @ ss" by simp
  then show ?thesis unfolding sublist_def by blast
qed

lemma prompt_rule3: "sublist rule3 (prompt today t d dl h)"
  unfolding prompt_def by (rule sublist_append_rightI | rule sublist_skip)+

section \<open>Facts about building and storing documents\<close>

lemma cast_entry_expected:
  assumes "expected_entry v"
  shows "\<exists>d t. cast_entry lib fresh v
           = Inr \<lparr>entry_id = fresh, day = Some d, task = Some t, completed = Some False\<rparr>"
proof (cases v)
  case (JObj kvs)
  with assms obtain d t where
    "map_of kvs ''day'' = Some (JNum d)" "map_of kvs ''task'' = Some (JStr t)"
    "map_of kvs ''_id'' = None" "map_of kvs ''completed'' = None"
    by (auto split: option.splits json.splits)
  with JObj show ?thesis
    by (simp add: cast_entry_def cast_id_def cast_day_def cast_text_def cast_completed_def)
qed (use assms in simp_all)

text \<open>A member \<^verbatim>\<open>completed\<close> of an element is kept: the default only fills a missing one.\<close>

lemma cast_entry_keeps_completed:
  "cast_entry lib 7 (JObj [(''day'', JNum 1), (''task'', JStr ''a''), (''completed'', JBool True)])
     = Inr \<lparr>entry_id = 7, day = Some 1, task = Some ''a'', completed = Some True\<rparr>"
  by (simp add: cast_entry_def cast_id_def cast_day_def cast_text_def cast_completed_def)

lemma cast_entries_expected:
  "list_all expected_entry xs \<Longrightarrow>
   \<exists>es. cast_entries lib oid i xs = Inr es \<and> length es = length xs \<and> (\<forall>e\<in>set es. completed e = Some False)"
proof (induction xs arbitrary: i)
  case Nil
  show ?case by simp
next
  case (Cons x xs)
  from Cons.prems have x: "expected_entry x" and xs: "list_all expected_entry xs" by simp_all
  from cast_entry_expected [OF x] obtain d t where
    e: "cast_entry lib (oid i) x = Inr \<lparr>entry_id = oid i, day = Some d, task = Some t, completed = Some False\<rparr>"
    by blast
  from Cons.IH [OF xs] obtain es where
    es: "cast_entries lib oid (Suc i) xs = Inr es" "length es = length xs" "\<forall>e\<in>set es. completed e = Some False"
    by blast
  show ?case using e es by simp
qed

lemma expected_message_cast:
  "expected_message a \<Longrightarrow> \<exists>m. cast_text lib (Some (or_else a JNull)) = Inr m"
  by (auto simp: expected_message_def cast_text_def split: option.splits json.splits)

lemma generate_object:
  assumes "generateContent lib p = Some answer" "JSON_parse lib (jsonStr answer) = Some (JObj kvs)"
  shows "generate lib p
    = Inr (or_else (map_of kvs ''adjustmentMessage'') JNull, or_else (map_of kvs ''roadmap'') (JArr []))"
  using assms by (simp add: generate_def)

lemma create_goal_expected:
  assumes gen: "generateContent lib (prompt today req_title req_description req_deadline req_hoursPerDay)
                  = Some answer"
    and parse: "JSON_parse lib (jsonStr answer) = Some v"
    and wf: "well_formed v xs"
    and title: "req_title \<noteq> []"
    and date: "castDate lib req_deadline = Some d"
    and fresh: "oid 0 \<notin> goal_id ` set db"
  shows "\<exists>g. create_goal lib today now oid db uid req_title req_description req_deadline req_hoursPerDay
             = (ok (GoalDoc g), db @ [g])
           \<and> length (roadmap g) = length xs \<and> (\<forall>e\<in>set (roadmap g). completed e = Some False)"
proof -
  from wf obtain kvs where v: "v = JObj kvs" by (cases v) simp_all
  from wf v have rm: "map_of kvs ''roadmap'' = Some (JArr xs)"
    and msg: "expected_message (map_of kvs ''adjustmentMessage'')"
    and all: "list_all expected_entry xs"
    by simp_all
  from generate_object [OF gen parse [unfolded v]] rm
  have g: "generate lib (prompt today req_title req_description req_deadline req_hoursPerDay)
          = Inr (or_else (map_of kvs ''adjustmentMessage'') JNull, JArr xs)"
    by simp
  from msg obtain m where m: "cast_text lib (Some (or_else (map_of kvs ''adjustmentMessage'') JNull)) = Inr m"
    using expected_message_cast by blast
  from cast_entries_expected [OF all] obtain es where
    es: "cast_entries lib oid 1 xs = Inr es" "length es = length xs" "\<forall>e\<in>set es. completed e = Some False"
    by blast
  show ?thesis
    using g m es title date fresh
    by (simp add: create_goal_def new_Goal_def cast_roadmap_def save_new_def validate_def)
qed

lemma find_update_first:
  "find P xs = Some x \<Longrightarrow> P (f x) \<Longrightarrow> find P (update_first P f xs) = Some (f x)"
  by (induction xs) (auto split: if_splits)

lemma update_first_twice:
  "find P xs = Some x \<Longrightarrow> P (f x) \<Longrightarrow> g (f x) = x \<Longrightarrow>
   update_first P g (update_first P f xs) = xs"
  by (induction xs) (auto split: if_splits)

lemma find_Some_set: "find P xs = Some x \<Longrightarrow> x \<in> set xs \<and> P x"
  by (induction xs) (auto split: if_splits)

lemma set_delete_first: "set (delete_first P xs) \<subseteq> set xs"
  by (induction xs) auto

lemma toggle_toggle: "completed t = Some b \<Longrightarrow> toggle (toggle t) = t"
  by (simp add: toggle_def js_not_def)

lemma entry_id_toggle: "entry_id (toggle t) = entry_id t"
  by (simp add: toggle_def)


text \<open>What one toggle request does to a Goal and an entry that exist.\<close>

lemma toggle_task_found:
  assumes g: "find (\<lambda>g. goal_id g = goalId) db = Some g"
    and t: "find (\<lambda>t. entry_id t = taskId) (roadmap g) = Some t"
  shows "toggle_task db uid goalId taskId =
     (if validate g
      then (ok (GoalDoc (g\<lparr>roadmap := update_first (\<lambda>t. entry_id t = taskId) toggle (roadmap g)\<rparr>)),
            update_first (\<lambda>x. goal_id x = goalId)
              (\<lambda>x. g\<lparr>roadmap := update_first (\<lambda>t. entry_id t = taskId) toggle (roadmap g)\<rparr>) db)
      else (\<lparr>status = 500, body = Error ''Failed to update task''\<rparr>, db))"
proof -
  from find_Some_set [OF g] have "goal_id g = goalId" by simp
  then show ?thesis using g t
    by (simp add: toggle_task_def save_loaded_def validate_def Let_def)
qed

lemma toggle_task_once:
  assumes g: "find (\<lambda>g. goal_id g = goalId) db = Some g"
    and t: "find (\<lambda>t. entry_id t = taskId) (roadmap g) = Some t"
    and v: "validate g"
  shows "entry_completed (snd (toggle_task db uid goalId taskId)) goalId taskId
           = Some (Some (js_not (completed t)))"
proof -
  define g' where "g' = g\<lparr>roadmap := update_first (\<lambda>t. entry_id t = taskId) toggle (roadmap g)\<rparr>"
  from find_Some_set [OF g] have "goal_id g' = goalId" by (simp add: g'_def)
  with find_update_first [OF g, of "\<lambda>x. g'"]
  have "find (\<lambda>g. goal_id g = goalId) (update_first (\<lambda>x. goal_id x = goalId) (\<lambda>x. g') db) = Some g'"
    by simp
  moreover have "find (\<lambda>t. entry_id t = taskId) (roadmap g') = Some (toggle t)"
    using find_update_first [OF t, of toggle] find_Some_set [OF t]
    by (simp add: g'_def entry_id_toggle)
  ultimately show ?thesis
    using toggle_task_found [OF g t, of uid] v
    by (simp add: entry_completed_def g'_def toggle_def)
qed

lemma toggle_task_twice_store:
  assumes g: "find (\<lambda>g. goal_id g = goalId) db = Some g"
    and t: "find (\<lambda>t. entry_id t = taskId) (roadmap g) = Some t"
    and b: "completed t = Some b"
  shows "snd (toggle_task (snd (toggle_task db uid goalId taskId)) uid' goalId taskId) = db"
proof (cases "validate g")
  case False
  then show ?thesis using toggle_task_found [OF g t] by simp
next
  case True
  define g' where "g' = g\<lparr>roadmap := update_first (\<lambda>t. entry_id t = taskId) toggle (roadmap g)\<rparr>"
  define db' where "db' = update_first (\<lambda>x. goal_id x = goalId) (\<lambda>x. g') db"
  from find_Some_set [OF g] have gid: "goal_id g = goalId" by simp
  have first: "toggle_task db uid goalId taskId = (ok (GoalDoc g'), db')"
    using toggle_task_found [OF g t] True by (simp add: g'_def db'_def)
  have gid': "goal_id g' = goalId" using gid by (simp add: g'_def)
  have g'': "find (\<lambda>g. goal_id g = goalId) db' = Some g'"
    unfolding db'_def using find_update_first [OF g, of "\<lambda>x. g'"] gid' by simp
  have t': "find (\<lambda>t. entry_id t = taskId) (roadmap g') = Some (toggle t)"
    using find_update_first [OF t, of toggle] find_Some_set [OF t]
    by (simp add: g'_def entry_id_toggle)
  have v': "validate g'" using True by (simp add: validate_def g'_def)
  have undo: "update_first (\<lambda>t. entry_id t = taskId) toggle (roadmap g') = roadmap g"
    using update_first_twice [OF t, of toggle toggle] find_Some_set [OF t]
    by (simp add: g'_def entry_id_toggle toggle_toggle [OF b])
  have "g'\<lparr>roadmap := roadmap g\<rparr> = g" by (simp add: g'_def)
  with undo have second: "toggle_task db' uid' goalId taskId =
      (ok (GoalDoc g), update_first (\<lambda>x. goal_id x = goalId) (\<lambda>x. g) db')"
    using toggle_task_found [OF g'' t', of uid'] v' by simp
  have "update_first (\<lambda>x. goal_id x = goalId) (\<lambda>x. g) db' = db"
    unfolding db'_def using update_first_twice [OF g, of "\<lambda>x. g'" "\<lambda>x. g"] gid' by simp
  with first second show ?thesis by simp
qed

text \<open>With unique identifiers, a Goal of another owner hides every match of the filter
  \<^verbatim>\<open>{ _id: goalId, userId: req.user._id }\<close>.\<close>

lemma find_foreign:
  assumes "store_ok db" "g \<in> set db" "goal_id g = goalId" "userId g \<noteq> uid"
  shows "find (\<lambda>x. goal_id x = goalId \<and> userId x = uid) db = None"
proof -
  from assms(1) have "inj_on goal_id (set db)" by (simp add: store_ok_def distinct_map)
  with assms(2,3) have "\<And>x. x \<in> set db \<Longrightarrow> goal_id x = goalId \<Longrightarrow> x = g"
    by (auto dest: inj_onD)
  with assms(4) show ?thesis by (auto simp: find_None_iff)
qed

lemma fold_apply_set_heading:
  "\<forall>u\<in>set updates. \<not> sets_heading u \<Longrightarrow>
   title (fold apply_set updates g) = title g \<and> description (fold apply_set updates g) = description g
   \<and> goal_id (fold apply_set updates g) = goal_id g"
proof (induction updates arbitrary: g)
  case Nil
  show ?case by simp
next
  case (Cons u us)
  then have "\<not> sets_heading u" and rest: "\<forall>u\<in>set us. \<not> sets_heading u" by simp_all
  then have "title (apply_set u g) = title g \<and> description (apply_set u g) = description g
      \<and> goal_id (apply_set u g) = goal_id g"
    by (cases u) simp_all
  with Cons.IH [OF rest, of "apply_set u g"] show ?case by simp
qed

lemma headings_update_first:
  assumes "find P db = Some g" "goal_id g' = goal_id g" "title g' = title g"
    "description g' = description g"
  shows "headings (update_first P (\<lambda>x. g') db) = headings db"
  using assms by (induction db) (auto simp: headings_def split: if_splits)

lemma headings_toggle_task: "headings (snd (toggle_task db uid goalId taskId)) = headings db"
proof (cases "find (\<lambda>g. goal_id g = goalId) db")
  case None
  then show ?thesis by (simp add: toggle_task_def)
next
  case (Some g)
  note g = this
  show ?thesis
  proof (cases "find (\<lambda>t. entry_id t = taskId) (roadmap g)")
    case None
    with g show ?thesis by (simp add: toggle_task_def)
  next
    case (Some t)
    show ?thesis
      using toggle_task_found [OF g Some, of uid] headings_update_first [OF g]
      by (cases "validate g") simp_all
  qed
qed

lemma headings_replace_fields:
  assumes "\<forall>u\<in>set updates. \<not> sets_heading u"
  shows "headings (snd (replace_fields db uid goalId updates)) = headings db"
proof (cases "find (\<lambda>g. goal_id g = goalId \<and> userId g = uid) db")
  case None
  then show ?thesis by (simp add: replace_fields_def)
next
  case (Some g)
  from fold_apply_set_heading [OF assms, of g] headings_update_first [OF Some]
  show ?thesis using Some by (simp add: replace_fields_def Let_def)
qed

section \<open>Creating a Goal\<close>






text \<open>
  Claim C4, as the code has it. The request Create sends to the generator always carries
  the rule that the plan must not exceed 365 days and is to be condensed to exactly 365;
  Create itself does not bound the answer: for a well-formed answer the persisted roadmap
  has at most 365 entries exactly when the answer's roadmap has.
\<close>

theorem create_goal_length_follows_answer:
  assumes "generateContent lib (prompt today req_title req_description req_deadline req_hoursPerDay)
             = Some answer"
    and "JSON_parse lib (jsonStr answer) = Some v"
    and "well_formed v xs"
    and "req_title \<noteq> []"
    and "castDate lib req_deadline = Some d"
    and "oid 0 \<notin> goal_id ` set db"
  shows "sublist rule3 (prompt today req_title req_description req_deadline req_hoursPerDay)
     \<and> (\<exists>g. create_goal lib today now oid db uid req_title req_description req_deadline req_hoursPerDay
               = (ok (GoalDoc g), db @ [g])
             \<and> (length (roadmap g) \<le> 365 \<longleftrightarrow> length xs \<le> 365))"
proof -
  from create_goal_expected [where oid = oid and now = now and uid = uid, OF assms] obtain g where
    "create_goal lib today now oid db uid req_title req_description req_deadline req_hoursPerDay
       = (ok (GoalDoc g), db @ [g])" "length (roadmap g) = length xs"
    by blast
  then show ?thesis using prompt_rule3 by auto
qed

theorem create_goal_length_follows_answer_witness:
  "sublist rule3 (prompt ''Mon Nov 02 2026'' ''Learn guitar'' ''Chords first'' ''2036-11-02'' 1)
   \<and> length (roadmap (last (snd (create_goal
       (sample_library (Some (fenced (days_src 3))) (days_src 3) (days_value 3))
       ''Mon Nov 02 2026'' 1793577600000 sample_oid [] 1
       ''Learn guitar'' ''Chords first'' ''2036-11-02'' 1)))) \<le> 365"
proof -
  let ?lib = "sample_library (Some (fenced (days_src 3))) (days_src 3) (days_value 3)"
  have gen: "generateContent ?lib (prompt ''Mon Nov 02 2026'' ''Learn guitar'' ''Chords first'' ''2036-11-02'' 1)
      = Some (fenced (days_src 3))"
    by (simp add: sample_library_def)
  have parse: "JSON_parse ?lib (jsonStr (fenced (days_src 3))) = Some (days_value 3)"
    by (simp add: sample_library_def jsonStr_days)
  have title: "''Learn guitar'' \<noteq> []" by simp
  have date: "castDate ?lib ''2036-11-02'' = Some (Some 2109196800000)"
    by (simp add: sample_library_def)
  have fresh: "sample_oid 0 \<notin> goal_id ` set []" by simp
  from create_goal_length_follows_answer
    [where oid = sample_oid and now = 1793577600000 and uid = 1, OF gen parse expected_days title date fresh]
  show ?thesis by auto
qed

text \<open>
  Claim C4, as stated, fails: for a deadline ten years out and an answer of 366 days,
  Create persists and returns a Goal with 366 roadmap entries.
\<close>

theorem create_goal_366_days:
  "status (fst (create_goal (sample_library (Some (fenced (days_src 366))) (days_src 366) (days_value 366))
       ''Mon Nov 02 2026'' 1793577600000 sample_oid [] 1
       ''Learn guitar'' ''Chords first'' ''2036-11-02'' 1)) = 200
   \<and> length (roadmap (last (snd (create_goal
       (sample_library (Some (fenced (days_src 366))) (days_src 366) (days_value 366))
       ''Mon Nov 02 2026'' 1793577600000 sample_oid [] 1
       ''Learn guitar'' ''Chords first'' ''2036-11-02'' 1)))) = 366"
proof -
  let ?lib = "sample_library (Some (fenced (days_src 366))) (days_src 366) (days_value 366)"
  have gen: "generateContent ?lib (prompt ''Mon Nov 02 2026'' ''Learn guitar'' ''Chords first'' ''2036-11-02'' 1)
      = Some (fenced (days_src 366))"
    by (simp add: sample_library_def)
  have parse: "JSON_parse ?lib (jsonStr (fenced (days_src 366))) = Some (days_value 366)"
    by (simp add: sample_library_def jsonStr_days)
  have title: "''Learn guitar'' \<noteq> []" by simp
  have date: "castDate ?lib ''2036-11-02'' = Some (Some 2109196800000)"
    by (simp add: sample_library_def)
  have fresh: "sample_oid 0 \<notin> goal_id ` set []" by simp
  from create_goal_expected
    [where oid = sample_oid and now = 1793577600000 and uid = 1, OF gen parse expected_days title date fresh]
  show ?thesis by (auto simp: ok_def)
qed



text \<open>
  Claim C10. When the parsed answer has an \<^verbatim>\<open>adjustmentMessage\<close> that is falsy (the empty
  string, \<^verbatim>\<open>false\<close>, \<^verbatim>\<open>0\<close> or null), a Goal that Create persists has no adjustment message.
\<close>

theorem create_goal_falsy_message:
  assumes "generateContent lib (prompt today req_title req_description req_deadline req_hoursPerDay)
             = Some answer"
    and "JSON_parse lib (jsonStr answer) = Some (JObj kvs)"
    and "map_of kvs ''adjustmentMessage'' = Some a"
    and "\<not> truthy a"
    and "create_goal lib today now oid db uid req_title req_description req_deadline req_hoursPerDay
           = (r, db')"
    and "status r = 200"
  shows "\<exists>g. r = ok (GoalDoc g) \<and> db' = db @ [g] \<and> adjustmentMessage g = None"
proof -
  from generate_object [OF assms(1,2)] assms(3,4)
  have "generate lib (prompt today req_title req_description req_deadline req_hoursPerDay)
          = Inr (JNull, or_else (map_of kvs ''roadmap'') (JArr []))"
    by simp
  with assms(5,6) show ?thesis
    by (auto simp: create_goal_def new_Goal_def cast_text_def save_new_def ai_failed_def
          split: option.splits sum.splits if_splits)
qed

theorem create_goal_falsy_message_witness:
  "status (fst (create_goal (sample_library (Some (fenced blank_message_src)) blank_message_src blank_message_value)
       ''Mon Nov 02 2026'' 1793577600000 sample_oid [] 1
       ''Learn guitar'' ''Chords first'' ''2030-01-01'' 1)) = 200
   \<and> adjustmentMessage (last (snd (create_goal
       (sample_library (Some (fenced blank_message_src)) blank_message_src blank_message_value)
       ''Mon Nov 02 2026'' 1793577600000 sample_oid [] 1
       ''Learn guitar'' ''Chords first'' ''2030-01-01'' 1))) = None"
proof -
  let ?lib = "sample_library (Some (fenced blank_message_src)) blank_message_src blank_message_value"
  let ?call = "create_goal ?lib ''Mon Nov 02 2026'' 1793577600000 sample_oid [] 1
       ''Learn guitar'' ''Chords first'' ''2030-01-01'' 1"
  have gen: "generateContent ?lib (prompt ''Mon Nov 02 2026'' ''Learn guitar'' ''Chords first'' ''2030-01-01'' 1)
      = Some (fenced blank_message_src)"
    by (simp add: sample_library_def)
  have parse: "JSON_parse ?lib (jsonStr (fenced blank_message_src))
      = Some (JObj [(''adjustmentMessage'', JStr []), (''roadmap'', JArr [])])"
    by (simp add: sample_library_def jsonStr_blank blank_message_value_def)
  have msg: "map_of [(''adjustmentMessage'', JStr []), (''roadmap'', JArr [])] ''adjustmentMessage''
      = Some (JStr [])"
    by simp
  have falsy: "\<not> truthy (JStr [])" by simp
  have call: "?call = (fst ?call, snd ?call)" by simp
  have date: "castDate ?lib ''2030-01-01'' = Some (Some 1893456000000)"
    by (simp add: sample_library_def)
  have "generate ?lib (prompt ''Mon Nov 02 2026'' ''Learn guitar'' ''Chords first'' ''2030-01-01'' 1)
      = Inr (JNull, JArr [])"
    using generate_object [OF gen parse] by simp
  then have ran: "status (fst ?call) = 200"
    by (simp add: create_goal_def new_Goal_def date cast_text_def cast_roadmap_def
        save_new_def validate_def ok_def)
  from create_goal_falsy_message [OF gen parse msg falsy call ran] ran
  show ?thesis by auto
qed

section \<open>Ownership\<close>

text \<open>
  Claim C3 at a concrete store: the toggle request of caller 2 on the Goal of owner 1 is
  answered with that Goal, and the Goal is changed in the store.
\<close>

theorem toggle_task_foreign_goal:
  "userId sample_goal = 1
   \<and> toggle_task [sample_goal] 2 10 100
     = (\<lparr>status = 200, body = GoalDoc
          (sample_goal\<lparr>roadmap :=
             [\<lparr>entry_id = 100, day = Some 1, task = Some ''Tune the guitar'', completed = Some True\<rparr>,
              \<lparr>entry_id = 101, day = Some 2, task = Some ''Learn E minor'', completed = Some True\<rparr>]\<rparr>)\<rparr>,
        [sample_goal\<lparr>roadmap :=
             [\<lparr>entry_id = 100, day = Some 1, task = Some ''Tune the guitar'', completed = Some True\<rparr>,
              \<lparr>entry_id = 101, day = Some 2, task = Some ''Learn E minor'', completed = Some True\<rparr>]\<rparr>])"
  by (simp add: toggle_task_def sample_goal_def save_loaded_def validate_def toggle_def js_not_def ok_def Let_def)

text \<open>
  Claim C6. When the Goal with the requested identifier belongs to another owner, Delete
  and ReplaceFields both answer 404 and leave the collection, and so that Goal, as it was.
\<close>

theorem foreign_goal_not_found:
  assumes "store_ok db" and "g \<in> set db" and "goal_id g = goalId" and "userId g \<noteq> uid"
  shows "delete_goal db uid goalId
           = (\<lparr>status = 404, body = Error ''Goal not found or unauthorized''\<rparr>, db)
     \<and> replace_fields db uid goalId updates
           = (\<lparr>status = 404, body = Error ''Goal not found or unauthorized''\<rparr>, db)"
  using find_foreign [OF assms] by (simp add: delete_goal_def replace_fields_def)

theorem foreign_goal_not_found_witness:
  "delete_goal [sample_goal] 2 10
     = (\<lparr>status = 404, body = Error ''Goal not found or unauthorized''\<rparr>, [sample_goal])
   \<and> replace_fields [sample_goal] 2 10 [SetRoadmap []]
     = (\<lparr>status = 404, body = Error ''Goal not found or unauthorized''\<rparr>, [sample_goal])"
proof -
  have "store_ok [sample_goal]" by (simp add: store_ok_def)
  moreover have "sample_goal \<in> set [sample_goal]" by simp
  moreover have "goal_id sample_goal = 10" by (simp add: sample_goal_def)
  moreover have "userId sample_goal \<noteq> 2" by (simp add: sample_goal_def)
  ultimately show ?thesis by (rule foreign_goal_not_found)
qed

section \<open>Toggling a task\<close>

text \<open>
  Claim C5, as the code has it. For a Goal and an entry that exist and whose \<open>completed\<close>
  is true or false, two toggle requests in a row leave the entry's \<open>completed\<close> value, and
  the whole collection, as they were before the first; the first one alone, when it is
  saved, inverts the value.
\<close>

theorem toggle_task_twice:
  assumes "find (\<lambda>g. goal_id g = goalId) db = Some g"
    and "find (\<lambda>t. entry_id t = taskId) (roadmap g) = Some t"
    and "completed t = Some b"
  shows "entry_completed (snd (toggle_task (snd (toggle_task db uid goalId taskId)) uid goalId taskId))
             goalId taskId
           = entry_completed db goalId taskId
     \<and> entry_completed db goalId taskId = Some (Some b)
     \<and> snd (toggle_task (snd (toggle_task db uid goalId taskId)) uid goalId taskId) = db
     \<and> (validate g \<longrightarrow>
          entry_completed (snd (toggle_task db uid goalId taskId)) goalId taskId
            = Some (Some (\<not> b)))"
  using toggle_task_twice_store [OF assms, of uid uid] toggle_task_once [OF assms(1,2), of uid] assms
  by (simp add: entry_completed_def js_not_def)

theorem toggle_task_twice_witness:
  "entry_completed [sample_goal] 10 100 = Some (Some False)
   \<and> entry_completed (snd (toggle_task [sample_goal] 1 10 100)) 10 100 = Some (Some True)
   \<and> entry_completed (snd (toggle_task (snd (toggle_task [sample_goal] 1 10 100)) 1 10 100)) 10 100
       = Some (Some False)"
proof -
  let ?t = "\<lparr>entry_id = 100, day = Some 1, task = Some ''Tune the guitar'', completed = Some False\<rparr>"
  have g: "find (\<lambda>g. goal_id g = 10) [sample_goal] = Some sample_goal"
    by (simp add: sample_goal_def)
  have t: "find (\<lambda>t. entry_id t = 100) (roadmap sample_goal) = Some ?t"
    by (simp add: sample_goal_def)
  have c: "completed ?t = Some False" by simp
  have v: "validate sample_goal" by (simp add: validate_def sample_goal_def)
  from toggle_task_twice [OF g t c, of 1] v show ?thesis by simp
qed

text \<open>
  Claim C5, as stated, fails on an entry whose \<open>completed\<close> is null. The owner's update
  request stores such an entry; the first toggle makes it true, the second false, and
  null is not restored.
\<close>

theorem toggle_task_twice_null:
  "entry_completed
     (snd (replace_fields [sample_goal] 1 10
        [SetRoadmap [\<lparr>entry_id = 100, day = Some 1, task = Some ''Tune the guitar'', completed = None\<rparr>]]))
     10 100 = Some None
   \<and> entry_completed
     (snd (toggle_task (snd (toggle_task
        (snd (replace_fields [sample_goal] 1 10
           [SetRoadmap [\<lparr>entry_id = 100, day = Some 1, task = Some ''Tune the guitar'', completed = None\<rparr>]]))
        1 10 100)) 1 10 100))
     10 100 = Some (Some False)"
  by (simp add: replace_fields_def toggle_task_def sample_goal_def save_loaded_def validate_def
      toggle_def js_not_def entry_completed_def ok_def Let_def)

section \<open>Title and description\<close>

text \<open>
  Claim C7, as the code has it. A toggle request leaves identifier, title and description
  of every stored Goal as they were, and so does ReplaceFields when the fields it is given
  contain neither a title nor a description; listing changes nothing, and deleting changes
  no Goal that remains.
\<close>

theorem headings_preserved:
  "headings (snd (toggle_task db uid goalId taskId)) = headings db
   \<and> ((\<forall>u\<in>set updates. \<not> sets_heading u) \<longrightarrow>
        headings (snd (replace_fields db uid goalId updates)) = headings db)
   \<and> snd (list_goals db uid) = db
   \<and> set (snd (delete_goal db uid goalId)) \<subseteq> set db"
proof -
  have "set (snd (delete_goal db uid goalId)) \<subseteq> set db"
    using set_delete_first [of "\<lambda>g. goal_id g = goalId \<and> userId g = uid" db]
    by (simp add: delete_goal_def split: option.splits)
  then show ?thesis
    using headings_toggle_task [of db uid goalId taskId] headings_replace_fields [of updates db uid goalId]
    by (simp add: list_goals_def)
qed

theorem headings_preserved_witness:
  "headings (snd (toggle_task [sample_goal] 1 10 101)) = [(10, ''Learn guitar'', ''Chords first'')]
   \<and> headings (snd (replace_fields [sample_goal] 1 10 [SetRoadmap [], SetHoursPerDay 2]))
       = [(10, ''Learn guitar'', ''Chords first'')]"
proof -
  have h: "headings [sample_goal] = [(10, ''Learn guitar'', ''Chords first'')]"
    by (simp add: headings_def sample_goal_def)
  have "\<forall>u\<in>set [SetRoadmap [], SetHoursPerDay 2]. \<not> sets_heading u" by simp
  with headings_preserved [of "[sample_goal]" 1 10 101 "[SetRoadmap [], SetHoursPerDay 2]"] h
  show ?thesis by simp
qed

text \<open>
  Claim C7, as stated, fails: ReplaceFields with a title writes it.
\<close>

theorem replace_fields_sets_title:
  "title sample_goal = ''Learn guitar''
   \<and> replace_fields [sample_goal] 1 10 [SetTitle ''Learn piano'']
       = (\<lparr>status = 200, body = GoalDoc (sample_goal\<lparr>title := ''Learn piano''\<rparr>)\<rparr>,
          [sample_goal\<lparr>title := ''Learn piano''\<rparr>])"
  by (simp add: replace_fields_def sample_goal_def ok_def Let_def)

section \<open>Password reset\<close>

text \<open>A code issued to a known user is stored with an expiry ten minutes ahead, whether or
  not the mail goes out.\<close>

lemma forgot_password_expiry:
  "find (\<lambda>u. email u = req_email) users = Some u \<Longrightarrow>
   snd (forgot_password issued new_otp mail_sent users otpStore req_email) req_email
     = Some \<lparr>otp = new_otp, expires = issued + 600000\<rparr>"
  by (simp add: forgot_password_def)

text \<open>
  Claim C9. A reset request that finds a stored code whose expiry time is in the past
  (a code issued more than ten minutes earlier) is answered with status 400 and
  \<^verbatim>\<open>OTP has expired\<close>; the users, so every stored password, are as they were, and the
  code is dropped.
\<close>

theorem reset_password_expired:
  assumes "otpStore req_email = Some d" and "expires d < now"
  shows "reset_password hash now users otpStore req_email req_otp newPassword
           = (\<lparr>status = 400, body = Error ''OTP has expired''\<rparr>, users, otpStore(req_email := None))"
  using assms by (simp add: reset_password_def)

theorem reset_password_expired_witness:
  "fst (reset_password (\<lambda>p. ''$2a$10$new'') 1793578200001 [sample_user]
          (snd (forgot_password 1793577600000 ''482913'' True [sample_user] Map.empty ''ada@example.org''))
          ''ada@example.org'' ''482913'' ''hunter2'')
     = \<lparr>status = 400, body = Error ''OTP has expired''\<rparr>
   \<and> fst (snd (reset_password (\<lambda>p. ''$2a$10$new'') 1793578200001 [sample_user]
          (snd (forgot_password 1793577600000 ''482913'' True [sample_user] Map.empty ''ada@example.org''))
          ''ada@example.org'' ''482913'' ''hunter2''))
     = [sample_user]"
proof -
  let ?store = "snd (forgot_password 1793577600000 ''482913'' True [sample_user] Map.empty ''ada@example.org'')"
  have "find (\<lambda>u. email u = ''ada@example.org'') [sample_user] = Some sample_user"
    by (simp add: sample_user_def)
  then have stored: "?store ''ada@example.org'' = Some \<lparr>otp = ''482913'', expires = 1793577600000 + 600000\<rparr>"
    by (rule forgot_password_expiry)
  have late: "expires \<lparr>otp = ''482913'', expires = 1793577600000 + 600000\<rparr> < 1793578200001"
    by simp
  from reset_password_expired
    [where otpStore = ?store and req_email = "''ada@example.org''", OF stored late]
  show ?thesis by simp
qed

end
